theory Spec2Isabelle
  imports Main "HOL-Library.Sublist" "HOL-Library.Multiset" "HOL-Library.Word"
begin

section \<open>Deployment reconciliation of the cert-manager operator\<close>

text \<open>
  A shallow embedding of \<^verbatim>\<open>controllers/operator/deploys.go\<close>: \<^verbatim>\<open>removeDeploy\<close>,
  \<^verbatim>\<open>deployFinder\<close>, \<^verbatim>\<open>setupDeploy\<close>, \<^verbatim>\<open>equalDeploys\<close> and \<^verbatim>\<open>deployLogic\<close>.
  Log calls are left out: they never change control flow, with one exception that is
  modelled (the log at the end of \<^verbatim>\<open>setupDeploy\<close> reads \<^verbatim>\<open>Containers[0]\<close>).
  A Go pointer or a nil-able slice or map is an \<open>option\<close> (\<open>None\<close> is nil); a slice that
  the code only measures and indexes is a list.
\<close>

subsection \<open>Errors and panics\<close>

text \<open>
  A Go \<^verbatim>\<open>error\<close> value: one made by \<^verbatim>\<open>errors.New\<close>, or a status error of the cluster API,
  whose not-found reason \<^verbatim>\<open>k8serrors.IsNotFound\<close> recognises.
\<close>

datatype error =
    ErrorString string
  | StatusNotFound string
  | StatusOther string

fun IsNotFound :: "error \<Rightarrow> bool" where
  "IsNotFound (StatusNotFound _) = True"
| "IsNotFound _ = False"

text \<open>A run-time panic of Go: an index out of range, or a nil pointer dereference.\<close>

datatype panic = IndexOutOfRange | NilPointerDereference

subsection \<open>Strings\<close>

text \<open>\<^verbatim>\<open>strings.Contains(s, substr)\<close>: \<open>substr\<close> occurs in \<open>s\<close> as a contiguous block.\<close>

fun strings_Contains :: "string \<Rightarrow> string \<Rightarrow> bool" where
  "strings_Contains [] substr = (substr = [])"
| "strings_Contains (c # cs) substr = (prefix substr (c # cs) \<or> strings_Contains cs substr)"

text \<open>\<^verbatim>\<open>strings.TrimRight(s, cutset)\<close>: drops every trailing character that is in \<open>cutset\<close>.\<close>

definition strings_TrimRight :: "string \<Rightarrow> string \<Rightarrow> string" where
  "strings_TrimRight s cutset = rev (dropWhile (\<lambda>c. c \<in> set cutset) (rev s))"

subsection \<open>The workload objects\<close>

text \<open>
  The fields of \<^verbatim>\<open>appsv1.Deployment\<close> that the file reads or writes, flattened:
  \<open>TemplateLabels\<close> is \<^verbatim>\<open>Spec.Template.ObjectMeta.Labels\<close>, \<open>PodSecurity\<close> is
  \<^verbatim>\<open>Spec.Template.Spec.SecurityContext\<close>, and so on. Structures that are only compared
  as a whole carry a representative part of their fields.
\<close>

text \<open>
  \<^verbatim>\<open>resource.Quantity\<close> in the form its parser gives a number that fits 64 bits: the
  \<^verbatim>\<open>int64Amount\<close> with the digits as \<open>i_value\<close> and the decimal exponent as \<open>i_scale\<close>,
  standing for \<open>i_value * 10 ^ i_scale\<close>. The parser keeps the digits as written:
  \<^verbatim>\<open>"1000m"\<close> is value 1000 at scale -3 and \<^verbatim>\<open>"1"\<close> is value 1 at scale 0.
\<close>

record Quantity =
  i_value :: int
  i_scale :: int

text \<open>A \<^verbatim>\<open>ResourceList\<close> is a map from resource names to quantities, here its entries.\<close>

type_synonym ResourceList = "(string \<times> Quantity) list option"

record ResourceRequirements =
  Limits :: ResourceList
  Requests :: ResourceList

record ExecAction =
  Command :: "string list option"

record Probe =
  Exec :: "ExecAction option"
  InitialDelaySeconds :: "32 word"
  TimeoutSeconds :: "32 word"

record Capabilities =
  CapAdd :: "string list option"
  CapDrop :: "string list option"

record SecurityContext =
  RunAsNonRoot :: "bool option"
  RunAsUser :: "64 word option"
  AllowPrivilegeEscalation :: "bool option"
  ReadOnlyRootFilesystem :: "bool option"
  Privileged :: "bool option"
  Caps :: "Capabilities option"

record PodSecurityContext =
  PodRunAsUser :: "64 word option"
  PodRunAsNonRoot :: "bool option"
  PodFSGroup :: "64 word option"

text \<open>\<open>FieldRef\<close> is the pointer to the field selector, given by its \<^verbatim>\<open>FieldPath\<close>.\<close>

record EnvVarSource =
  FieldRef :: "string option"

record EnvVar =
  EnvName :: string
  EnvValue :: string
  ValueFrom :: "EnvVarSource option"

record VolumeMount =
  MountName :: string
  MountReadOnly :: bool
  MountPath :: string
  SubPath :: string

text \<open>\<open>Secret\<close> is the pointer \<^verbatim>\<open>VolumeSource.Secret\<close>, given by its \<^verbatim>\<open>SecretName\<close>.\<close>

record Volume =
  VolumeName :: string
  Secret :: "string option"

record Container =
  ContainerName :: string
  ContainerImage :: string
  ImagePullPolicy :: string
  Args :: "string list option"
  LivenessProbe :: "Probe option"
  ReadinessProbe :: "Probe option"
  ContainerSecurity :: "SecurityContext option"
  Resources :: ResourceRequirements
  Env :: "EnvVar list"
  VolumeMounts :: "VolumeMount list"

record Deployment =
  Name :: string
  Namespace :: string
  Labels :: "(string \<times> string) list option"
  ResourceVersion :: string
  OwnerReferences :: "string list"
  Replicas :: "32 word option"
  TemplateLabels :: "(string \<times> string) list option"
  ImagePullSecrets :: "string list option"
  ServiceAccountName :: string
  PodSecurity :: "PodSecurityContext option"
  Volumes :: "Volume list"
  HostNetwork :: bool
  Containers :: "Container list"

subsection \<open>The declarative input and the constants of package \<^verbatim>\<open>resources\<close>\<close>

text \<open>The fields of \<^verbatim>\<open>CertManagerConfig.Spec\<close> that \<^verbatim>\<open>setupDeploy\<close> reads.\<close>

record CertManagerConfig =
  Spec_ImageRegistry :: string
  Spec_ImagePostFix :: string
  Spec_ResourceNS :: string
  Spec_DisableHostNetwork :: "bool option"
  Spec_CertManagerController :: ResourceRequirements
  Spec_CertManagerCAInjector :: ResourceRequirements
  Spec_CertManagerWebhook :: ResourceRequirements

text \<open>
  Package \<^verbatim>\<open>resources\<close> (imported as \<^verbatim>\<open>res\<close>) declares the constants and the function
  \<^verbatim>\<open>GetImageID\<close> that \<^verbatim>\<open>setupDeploy\<close> uses. Its file is not part of the sources at hand,
  so they are parameters of the model, one field each.
\<close>

record res =
  res_ImageRegistry :: string
  res_CertManagerControllerName :: string
  res_CertManagerCainjectorName :: string
  res_CertManagerWebhookName :: string
  res_ControllerImageName :: string
  res_AcmesolverImageName :: string
  res_CainjectorImageName :: string
  res_WebhookImageName :: string
  res_ControllerImageVersion :: string
  res_WebhookImageVersion :: string
  res_ControllerImageEnvVar :: string
  res_AcmeSolverImageEnvVar :: string
  res_CaInjectorImageEnvVar :: string
  res_WebhookImageEnvVar :: string
  res_ResourceNS :: string
  res_DefaultArgs :: "string list"
  res_TrueVar :: bool
  res_FalseVar :: bool
  res_GetImageID :: "string \<Rightarrow> string \<Rightarrow> string \<Rightarrow> string \<Rightarrow> string \<Rightarrow> string"

subsection \<open>\<^verbatim>\<open>setupDeploy\<close>\<close>

text \<open>Lines 109-112: the registry that the image references are composed from.\<close>

definition imageRegistry :: "res \<Rightarrow> CertManagerConfig \<Rightarrow> string" where
  "imageRegistry r inst =
     (if Spec_ImageRegistry inst \<noteq> [] then strings_TrimRight (Spec_ImageRegistry inst) ''/''
      else res_ImageRegistry r)"

text \<open>
  The block repeated for each workload (lines 130-135, 145-150, 161-166): a limits or
  requests list of the input replaces the container's when it is not nil.
\<close>

definition overrideResources :: "ResourceRequirements \<Rightarrow> Container \<Rightarrow> Container" where
  "overrideResources ov c =
     (let c1 = (if Limits ov \<noteq> None then c\<lparr>Resources := (Resources c)\<lparr>Limits := Limits ov\<rparr>\<rparr> else c)
      in if Requests ov \<noteq> None then c1\<lparr>Resources := (Resources c1)\<lparr>Requests := Requests ov\<rparr>\<rparr> else c1)"

text \<open>
  \<^verbatim>\<open>setupDeploy\<close> copies the template, edits container 0 by the template's name and sets
  the namespace. Every path indexes \<^verbatim>\<open>Containers[0]\<close> (the three cases at their first
  statement, any other name at the log before the return), so a template with no
  container panics; the webhook case also dereferences the container's security context.
  The copy is shallow in Go: the container array is shared with the template, which the
  edits therefore reach too; the model returns the new object only.
\<close>

definition setupDeploy :: "res \<Rightarrow> CertManagerConfig \<Rightarrow> Deployment \<Rightarrow> string \<Rightarrow> panic + Deployment" where
  "setupDeploy r inst deploy ns =
     (case Containers deploy of
        [] \<Rightarrow> Inl IndexOutOfRange
      | c0 # cs \<Rightarrow>
          if Name deploy = res_CertManagerControllerName r then
            (let img = res_GetImageID r (imageRegistry r inst) (res_ControllerImageName r)
                           (res_ControllerImageVersion r) (Spec_ImagePostFix inst) (res_ControllerImageEnvVar r);
                 acmesolver = ''--acme-http01-solver-image='' @
                           res_GetImageID r (imageRegistry r inst) (res_AcmesolverImageName r)
                             (res_ControllerImageVersion r) (Spec_ImagePostFix inst) (res_AcmeSolverImageEnvVar r);
                 resourceNS = (if Spec_ResourceNS inst \<noteq> []
                               then ''--cluster-resource-namespace='' @ Spec_ResourceNS inst
                               else res_ResourceNS r);
                 leaderElect = ''--leader-election-namespace='' @ ns;
                 args = res_DefaultArgs r @ [acmesolver, resourceNS, leaderElect];
                 c1 = overrideResources (Spec_CertManagerController inst)
                        (c0\<lparr>ContainerImage := img, Args := Some args\<rparr>)
             in Inr (deploy\<lparr>Containers := c1 # cs, Namespace := ns\<rparr>))
          else if Name deploy = res_CertManagerCainjectorName r then
            (let img = res_GetImageID r (imageRegistry r inst) (res_CainjectorImageName r)
                           (res_ControllerImageVersion r) (Spec_ImagePostFix inst) (res_CaInjectorImageEnvVar r);
                 leaderElect = ''--leader-election-namespace='' @ ns;
                 args = res_DefaultArgs r @ [leaderElect];
                 c1 = overrideResources (Spec_CertManagerCAInjector inst)
                        (c0\<lparr>ContainerImage := img, Args := Some args\<rparr>)
             in Inr (deploy\<lparr>Containers := c1 # cs, Namespace := ns\<rparr>))
          else if Name deploy = res_CertManagerWebhookName r then
            (let img = res_GetImageID r (imageRegistry r inst) (res_WebhookImageName r)
                           (res_WebhookImageVersion r) (Spec_ImagePostFix inst) (res_WebhookImageEnvVar r)
             in case ContainerSecurity c0 of
                  None \<Rightarrow> Inl NilPointerDereference
                | Some sc \<Rightarrow>
                    (let hostNetwork = (case Spec_DisableHostNetwork inst of
                                          None \<Rightarrow> res_FalseVar r
                                        | Some disable \<Rightarrow> \<not> disable);
                         c1 = overrideResources (Spec_CertManagerWebhook inst)
                                (c0\<lparr>ContainerImage := img,
                                    ContainerSecurity := Some (sc\<lparr>ReadOnlyRootFilesystem := Some (res_TrueVar r)\<rparr>)\<rparr>)
                     in Inr (deploy\<lparr>Containers := c1 # cs, HostNetwork := hostNetwork, Namespace := ns\<rparr>)))
          else Inr (deploy\<lparr>Namespace := ns\<rparr>))"

subsection \<open>Rendering a quantity: \<^verbatim>\<open>fmt.Sprint(q.AsDec())\<close>\<close>

text \<open>
  \<^verbatim>\<open>ResourceList.Cpu()\<close>, \<^verbatim>\<open>Memory()\<close> and \<^verbatim>\<open>StorageEphemeral()\<close> look a name up and give
  the zero quantity when the list is nil or has no such entry.
\<close>

definition quantityOf :: "ResourceList \<Rightarrow> string \<Rightarrow> Quantity" where
  "quantityOf rl name =
     (case rl of
        None \<Rightarrow> \<lparr>i_value = 0, i_scale = 0\<rparr>
      | Some entries \<Rightarrow>
          (case map_of entries name of
             None \<Rightarrow> \<lparr>i_value = 0, i_scale = 0\<rparr>
           | Some q \<Rightarrow> q))"

definition Cpu :: "ResourceList \<Rightarrow> Quantity" where
  "Cpu rl = quantityOf rl ''cpu''"

definition Memory :: "ResourceList \<Rightarrow> Quantity" where
  "Memory rl = quantityOf rl ''memory''"

definition StorageEphemeral :: "ResourceList \<Rightarrow> Quantity" where
  "StorageEphemeral rl = quantityOf rl ''ephemeral-storage''"

text \<open>The decimal digits of a natural number and of an integer (\<^verbatim>\<open>big.Int.String\<close>).\<close>

definition digitChar :: "nat \<Rightarrow> char" where
  "digitChar n = ''0123456789'' ! n"

function natString :: "nat \<Rightarrow> string" where
  "natString n = (if n < 10 then [digitChar n] else natString (n div 10) @ [digitChar (n mod 10)])"
  by pat_completeness auto
termination
  by (relation "measure id") auto

declare natString.simps [simp del]

definition intString :: "int \<Rightarrow> string" where
  "intString i = (if i < 0 then CHR ''-'' # natString (nat (- i)) else natString (nat i))"

text \<open>
  \<^verbatim>\<open>inf.Dec.String\<close> of the decimal \<open>unscaled * 10 ^ (- scale)\<close>: the digits of the
  unscaled number with the point put \<open>scale\<close> places from the right. Digits are
  neither added nor dropped to bring the number to a normal form; only a scale of zero or
  less gives a string with no point.
\<close>

definition Dec_String :: "int \<Rightarrow> int \<Rightarrow> string" where
  "Dec_String unscaled scale =
     (let s = intString unscaled in
      if scale \<le> 0 then
        (if scale \<noteq> 0 \<and> unscaled \<noteq> 0 then s @ replicate (nat (- scale)) CHR ''0'' else s)
      else
        (let negbit = (if unscaled < 0 then 1 else 0 :: nat);
             lens = length s in
         if int lens - int negbit \<le> scale then
           (if negbit = 1 then ''-'' else []) @ ''0.'' @
             replicate (nat (scale - int lens + int negbit)) CHR ''0'' @ drop negbit s
         else take (lens - nat scale) s @ ''.'' @ drop (lens - nat scale) s))"

text \<open>
  \<^verbatim>\<open>Quantity.AsDec\<close> turns the \<^verbatim>\<open>int64Amount\<close> into the decimal with the same digits and
  the scale negated; \<^verbatim>\<open>fmt.Sprint\<close> prints it with \<^verbatim>\<open>Dec.String\<close>.
\<close>

definition Sprint_AsDec :: "Quantity \<Rightarrow> string" where
  "Sprint_AsDec q = Dec_String (i_value q) (- i_scale q)"

subsection \<open>\<^verbatim>\<open>equalDeploys\<close>\<close>

text \<open>
  \<^verbatim>\<open>reflect.DeepEqual\<close> on strings, numbers, pointers and slices is equality of the model's
  values (nil is \<open>None\<close>). On two maps it asks for the same entries; a map is given by
  the list of its entries, each key once.
\<close>

fun DeepEqual_map :: "(string \<times> string) list option \<Rightarrow> (string \<times> string) list option \<Rightarrow> bool" where
  "DeepEqual_map None None = True"
| "DeepEqual_map (Some a) (Some b) = (set a = set b)"
| "DeepEqual_map _ _ = False"

text \<open>Lines 287-303, run when both lists have the same length.\<close>

fun volumesEqual :: "Volume list \<Rightarrow> Volume list \<Rightarrow> bool" where
  "volumesEqual (f # fVol) (s # sVol) =
     (if VolumeName f \<noteq> VolumeName s then False
      else (case (Secret f, Secret s) of
              (Some a, Some b) \<Rightarrow> if a \<noteq> b then False else volumesEqual fVol sVol
            | (None, None) \<Rightarrow> volumesEqual fVol sVol
            | _ \<Rightarrow> False))"
| "volumesEqual _ _ = True"

text \<open>Lines 342-357.\<close>

definition argsEqual :: "string list option \<Rightarrow> string list option \<Rightarrow> bool" where
  "argsEqual f s =
     (case (f, s) of
        (Some a, Some b) \<Rightarrow> if length a \<noteq> length b then False else a = b
      | (None, None) \<Rightarrow> True
      | _ \<Rightarrow> False)"

text \<open>
  Lines 362-384 for the liveness probes and 388-410 for the readiness probes. With both
  probes present the code reads \<^verbatim>\<open>ProbeHandler.Exec.Command\<close> of each, and \<^verbatim>\<open>Exec\<close> is a
  pointer.
\<close>

definition probesEqual :: "Probe option \<Rightarrow> Probe option \<Rightarrow> panic + bool" where
  "probesEqual f s =
     (case (f, s) of
        (Some fp, Some sp) \<Rightarrow>
          (case (Exec fp, Exec sp) of
             (Some fe, Some se) \<Rightarrow>
               if Command fe \<noteq> Command se then Inr False
               else if InitialDelaySeconds fp \<noteq> InitialDelaySeconds sp then Inr False
               else if TimeoutSeconds fp \<noteq> TimeoutSeconds sp then Inr False
               else Inr True
           | _ \<Rightarrow> Inl NilPointerDereference)
      | (None, None) \<Rightarrow> Inr True
      | _ \<Rightarrow> Inr False)"

text \<open>The test applied to each field of the container's security context.\<close>

definition fieldEqual :: "'a option \<Rightarrow> 'a option \<Rightarrow> bool" where
  "fieldEqual f s =
     (case (f, s) of
        (Some a, Some b) \<Rightarrow> a = b
      | (None, None) \<Rightarrow> True
      | _ \<Rightarrow> False)"

text \<open>Lines 415-484.\<close>

definition securityEqual :: "SecurityContext option \<Rightarrow> SecurityContext option \<Rightarrow> bool" where
  "securityEqual f s =
     (case (f, s) of
        (Some fSecCont, Some sSecCont) \<Rightarrow>
          if \<not> fieldEqual (RunAsNonRoot fSecCont) (RunAsNonRoot sSecCont) then False
          else if \<not> fieldEqual (RunAsUser fSecCont) (RunAsUser sSecCont) then False
          else if \<not> fieldEqual (AllowPrivilegeEscalation fSecCont) (AllowPrivilegeEscalation sSecCont) then False
          else if \<not> fieldEqual (ReadOnlyRootFilesystem fSecCont) (ReadOnlyRootFilesystem sSecCont) then False
          else if \<not> fieldEqual (Privileged fSecCont) (Privileged sSecCont) then False
          else if \<not> fieldEqual (Caps fSecCont) (Caps sSecCont) then False
          else True
      | (None, None) \<Rightarrow> True
      | _ \<Rightarrow> False)"

text \<open>Lines 486-523: the six quantities, each compared as the string of its decimal.\<close>

definition resourcesEqual :: "ResourceRequirements \<Rightarrow> ResourceRequirements \<Rightarrow> bool" where
  "resourcesEqual fRes sRes =
     (if Sprint_AsDec (Cpu (Limits fRes)) \<noteq> Sprint_AsDec (Cpu (Limits sRes)) then False
      else if Sprint_AsDec (Memory (Limits fRes)) \<noteq> Sprint_AsDec (Memory (Limits sRes)) then False
      else if Sprint_AsDec (Cpu (Requests fRes)) \<noteq> Sprint_AsDec (Cpu (Requests sRes)) then False
      else if Sprint_AsDec (Memory (Requests fRes)) \<noteq> Sprint_AsDec (Memory (Requests sRes)) then False
      else if Sprint_AsDec (StorageEphemeral (Requests fRes)) \<noteq> Sprint_AsDec (StorageEphemeral (Requests sRes)) then False
      else if Sprint_AsDec (StorageEphemeral (Limits fRes)) \<noteq> Sprint_AsDec (StorageEphemeral (Limits sRes)) then False
      else True)"

text \<open>Lines 531-562, run when both lists have the same length.\<close>

fun envEqual :: "EnvVar list \<Rightarrow> EnvVar list \<Rightarrow> bool" where
  "envEqual (f # fEnv) (s # sEnv) =
     (if EnvName f \<noteq> EnvName s then False
      else if EnvValue f \<noteq> EnvValue s then False
      else (case (ValueFrom f, ValueFrom s) of
              (Some fv, Some sv) \<Rightarrow>
                (case (FieldRef fv, FieldRef sv) of
                   (Some a, Some b) \<Rightarrow> if a \<noteq> b then False else envEqual fEnv sEnv
                 | (None, None) \<Rightarrow> envEqual fEnv sEnv
                 | _ \<Rightarrow> False)
            | (None, None) \<Rightarrow> envEqual fEnv sEnv
            | _ \<Rightarrow> False))"
| "envEqual _ _ = True"

text \<open>Lines 568-575, run when both lists have the same length.\<close>

fun volumeMountsEqual :: "VolumeMount list \<Rightarrow> VolumeMount list \<Rightarrow> bool" where
  "volumeMountsEqual (f # fVolMnt) (s # sVolMnt) =
     (if f \<noteq> s then False else volumeMountsEqual fVolMnt sVolMnt)"
| "volumeMountsEqual _ _ = True"

text \<open>Lines 326-582: the checks on container 0 of each deployment.\<close>

definition containersEqual :: "Container \<Rightarrow> Container \<Rightarrow> panic + bool" where
  "containersEqual fContainer sContainer =
     (if ContainerName fContainer \<noteq> ContainerName sContainer then Inr False
      else if ContainerImage fContainer \<noteq> ContainerImage sContainer then Inr False
      else if ImagePullPolicy fContainer \<noteq> ImagePullPolicy sContainer then Inr False
      else if \<not> argsEqual (Args fContainer) (Args sContainer) then Inr False
      else (case probesEqual (LivenessProbe fContainer) (LivenessProbe sContainer) of
              Inl p \<Rightarrow> Inl p
            | Inr False \<Rightarrow> Inr False
            | Inr True \<Rightarrow>
               (case probesEqual (ReadinessProbe fContainer) (ReadinessProbe sContainer) of
                  Inl p \<Rightarrow> Inl p
                | Inr False \<Rightarrow> Inr False
                | Inr True \<Rightarrow>
                    if \<not> securityEqual (ContainerSecurity fContainer) (ContainerSecurity sContainer) then Inr False
                    else if \<not> resourcesEqual (Resources fContainer) (Resources sContainer) then Inr False
                    else if length (Env fContainer) \<noteq> length (Env sContainer) then Inr False
                    else if \<not> envEqual (Env fContainer) (Env sContainer) then Inr False
                    else if length (VolumeMounts fContainer) \<noteq> length (VolumeMounts sContainer) then Inr False
                    else if \<not> volumeMountsEqual (VolumeMounts fContainer) (VolumeMounts sContainer) then Inr False
                    else Inr True)))"

text \<open>
  Lines 240-325, then the container checks. After the test that the two container lists
  have the same length the code takes element 0 of each, which panics when both are
  empty.
\<close>

definition equalDeploys :: "Deployment \<Rightarrow> Deployment \<Rightarrow> panic + bool" where
  "equalDeploys first second =
     (if \<not> DeepEqual_map (Labels first) (Labels second) then Inr False
      else if Replicas first \<noteq> Replicas second then Inr False
      else if \<not> DeepEqual_map (TemplateLabels first) (TemplateLabels second) then Inr False
      else if ImagePullSecrets first \<noteq> ImagePullSecrets second then Inr False
      else if ServiceAccountName first \<noteq> ServiceAccountName second then Inr False
      else if PodSecurity first \<noteq> PodSecurity second then Inr False
      else if length (Volumes first) \<noteq> length (Volumes second) then Inr False
      else if \<not> volumesEqual (Volumes first) (Volumes second) then Inr False
      else if HostNetwork first \<noteq> HostNetwork second then Inr False
      else if length (Containers first) \<noteq> length (Containers second) then Inr False
      else (case (Containers first, Containers second) of
              (fContainer # _, sContainer # _) \<Rightarrow> containersEqual fContainer sContainer
            | _ \<Rightarrow> Inl IndexOutOfRange))"

subsection \<open>The cluster state store\<close>

text \<open>
  The typed client (\<^verbatim>\<open>kubernetes.Interface\<close>), as far as the file calls it:
  \<open>ListDeployments sel\<close> is \<^verbatim>\<open>Deployments("").List\<close> over all namespaces with label
  selector \<open>sel\<close> (the empty selector selects everything), \<open>DeleteDeployment ns n\<close> is
  \<^verbatim>\<open>Deployments(ns).Delete\<close> of name \<open>n\<close> (\<open>None\<close> is a nil error).
\<close>

record Kube =
  ListDeployments :: "string \<Rightarrow> error + Deployment list"
  DeleteDeployment :: "string \<Rightarrow> string \<Rightarrow> error option"

text \<open>The controller-runtime client: the outcome of a create and of an update call.\<close>

record Client =
  Create :: "Deployment \<Rightarrow> error option"
  Update :: "Deployment \<Rightarrow> error option"

text \<open>A write call that reached the cluster state store.\<close>

datatype WriteCall = CreateCall Deployment | UpdateCall Deployment

subsection \<open>\<^verbatim>\<open>removeDeploy\<close>\<close>

definition removeDeploy :: "Kube \<Rightarrow> string \<Rightarrow> string \<Rightarrow> error option" where
  "removeDeploy client name namespace =
     (case DeleteDeployment client namespace name of
        Some err \<Rightarrow> if \<not> IsNotFound err then Some err else None
      | None \<Rightarrow> None)"

subsection \<open>\<^verbatim>\<open>deployFinder\<close>\<close>

text \<open>The key of \<^verbatim>\<open>allDeploysMap\<close> (lines 200 and 220).\<close>

definition mapKey :: "Deployment \<Rightarrow> string" where
  "mapKey deploy = Name deploy @ ''/'' @ Namespace deploy"

text \<open>
  \<^verbatim>\<open>allDeploysMap\<close> is the list of its entries in the order they were added, each key
  once. Lines 201-204 and 221-224: an entry is added when its key is not yet there.
\<close>

definition addDeploy :: "(string \<times> Deployment) list \<Rightarrow> Deployment \<Rightarrow> (string \<times> Deployment) list" where
  "addDeploy allDeploysMap deploy =
     (if map_of allDeploysMap (mapKey deploy) = None
      then allDeploysMap @ [(mapKey deploy, deploy)]
      else allDeploysMap)"

text \<open>What holds of the map throughout: each key once, each entry under its own key.\<close>

definition keyed :: "(string \<times> Deployment) list \<Rightarrow> bool" where
  "keyed allDeploysMap \<longleftrightarrow>
     distinct (map fst allDeploysMap) \<and> list_all (\<lambda>(k, deploy). k = mapKey deploy) allDeploysMap"

text \<open>Lines 196-205: the deployments found by their labels.\<close>

fun addByLabels :: "(string \<times> Deployment) list \<Rightarrow> Deployment list \<Rightarrow> (string \<times> Deployment) list" where
  "addByLabels allDeploysMap [] = allDeploysMap"
| "addByLabels allDeploysMap (deploy # items) = addByLabels (addDeploy allDeploysMap deploy) items"

text \<open>
  Lines 215-226: of all deployments, those whose first container's image contains the
  name. \<^verbatim>\<open>Containers[0]\<close> is read with no test of the length.
\<close>

fun addByImage :: "string \<Rightarrow> (string \<times> Deployment) list \<Rightarrow> Deployment list \<Rightarrow>
    panic + (string \<times> Deployment) list" where
  "addByImage name allDeploysMap [] = Inr allDeploysMap"
| "addByImage name allDeploysMap (deploy # items) =
     (case Containers deploy of
        [] \<Rightarrow> Inl IndexOutOfRange
      | c0 # _ \<Rightarrow>
          if strings_Contains (ContainerImage c0) name
          then addByImage name (addDeploy allDeploysMap deploy) items
          else addByImage name allDeploysMap items)"

text \<open>
  Go ranges over a map in an order of the runtime's choice. \<open>rng\<close> is that choice: the
  order in which the loop at lines 228-231 meets the values of the map. A failed list
  call is logged and its pass skipped.
\<close>

definition deployFinder :: "(Deployment list \<Rightarrow> Deployment list) \<Rightarrow> Kube \<Rightarrow> string \<Rightarrow> string \<Rightarrow>
    panic + Deployment list" where
  "deployFinder rng client labels name =
     (let byLabels = (case ListDeployments client labels of
                        Inl err \<Rightarrow> []
                      | Inr items \<Rightarrow> addByLabels [] items)
      in case ListDeployments client [] of
           Inl err \<Rightarrow> Inr (rng (map snd byLabels))
         | Inr items \<Rightarrow>
             (case addByImage name byLabels items of
                Inl p \<Rightarrow> Inl p
              | Inr allDeploysMap \<Rightarrow> Inr (rng (map snd allDeploysMap))))"

subsection \<open>\<^verbatim>\<open>deployLogic\<close>\<close>

text \<open>
  \<^verbatim>\<open>controllerutil.SetControllerReference\<close> belongs to controller-runtime. It fails (the
  owner's kind is not registered in the scheme, the owner's namespace does not fit the
  object's, or the object already has another controller), or it records the owner
  among the object's owner references and changes nothing else. Which of these happens
  for an owner and a controlled object, an error or the reference to record, is a
  parameter.
\<close>

type_synonym Scheme = "CertManagerConfig \<Rightarrow> Deployment \<Rightarrow> error + string"

definition SetControllerReference :: "CertManagerConfig \<Rightarrow> Deployment \<Rightarrow> Scheme \<Rightarrow> error + Deployment" where
  "SetControllerReference owner controlled scheme =
     (case scheme owner controlled of
        Inl err \<Rightarrow> Inl err
      | Inr ref \<Rightarrow>
          Inr (controlled\<lparr>OwnerReferences :=
                 (if ref \<in> set (OwnerReferences controlled) then OwnerReferences controlled
                  else OwnerReferences controlled @ [ref])\<rparr>))"

text \<open>The message of the error made at lines 64-67.\<close>

definition conflictMessage :: "string \<Rightarrow> Deployment \<Rightarrow> string" where
  "conflictMessage name deploy =
     ''The service '' @ name @ '' is already deployed as '' @ Namespace deploy @ ''/'' @ Name deploy @
     ''. Please remove it if you want this version of '' @ name @ '' to be deployed.''"

text \<open>
  Lines 61-74. \<open>existing\<close> is \<open>None\<close> while \<^verbatim>\<open>create\<close> is true, and holds
  \<^verbatim>\<open>existingDeploy\<close> once \<^verbatim>\<open>create\<close> is false.
\<close>

fun findExisting :: "string \<Rightarrow> string \<Rightarrow> Deployment list \<Rightarrow> Deployment option \<Rightarrow> error + Deployment option" where
  "findExisting name ns [] existing = Inr existing"
| "findExisting name ns (deploy # similarDeploys) existing =
     (if \<not> (Name deploy = name \<and> Namespace deploy = ns)
      then Inl (ErrorString (conflictMessage name deploy))
      else findExisting name ns similarDeploys (Some deploy))"

text \<open>
  One pass. The result is what the function returns (a panic, or the error, \<open>None\<close> for
  nil) and the write calls it made on the way.
\<close>

definition deployLogic :: "(Deployment list \<Rightarrow> Deployment list) \<Rightarrow> res \<Rightarrow> CertManagerConfig \<Rightarrow> Client \<Rightarrow>
    Kube \<Rightarrow> Scheme \<Rightarrow> Deployment \<Rightarrow> string \<Rightarrow> string \<Rightarrow> string \<Rightarrow> string \<Rightarrow>
    (panic + error option) \<times> WriteCall list" where
  "deployLogic rng r inst client kubeclient scheme deployTemplate name imageName labels ns =
     (case deployFinder rng kubeclient labels imageName of
        Inl p \<Rightarrow> (Inl p, [])
      | Inr similarDeploys \<Rightarrow>
     (case setupDeploy r inst deployTemplate ns of
        Inl p \<Rightarrow> (Inl p, [])
      | Inr deployment \<Rightarrow>
     (case findExisting name ns similarDeploys None of
        Inl err \<Rightarrow> (Inr (Some err), [])
      | Inr existing \<Rightarrow>
     (case SetControllerReference inst deployment scheme of
        Inl err \<Rightarrow> (Inr (Some err), [])
      | Inr owned \<Rightarrow>
     (case existing of
        None \<Rightarrow> (Inr (Create client owned), [CreateCall owned])
      | Some existingDeploy \<Rightarrow>
          (case equalDeploys owned existingDeploy of
             Inl p \<Rightarrow> (Inl p, [])
           | Inr False \<Rightarrow>
               (let updated = owned\<lparr>ResourceVersion := ResourceVersion existingDeploy\<rparr>
                in (Inr (Update client updated), [UpdateCall updated]))
           | Inr True \<Rightarrow> (Inr None, [])))))))"

subsection \<open>Sample objects\<close>

text \<open>
  Concrete values at which the theorems below are instantiated. \<open>sampleRes\<close> gives the
  parameters of package \<^verbatim>\<open>resources\<close> sample values; \<^verbatim>\<open>TrueVar\<close> and \<^verbatim>\<open>FalseVar\<close> are
  the truth values their names say, and the sample \<^verbatim>\<open>GetImageID\<close> joins registry, name,
  version and postfix.
\<close>

definition sampleRes :: res where
  "sampleRes =
     \<lparr>res_ImageRegistry = ''icr.io/cpopen/cpfs'',
      res_CertManagerControllerName = ''cert-manager-controller'',
      res_CertManagerCainjectorName = ''cert-manager-cainjector'',
      res_CertManagerWebhookName = ''cert-manager-webhook'',
      res_ControllerImageName = ''icp-cert-manager-controller'',
      res_AcmesolverImageName = ''icp-cert-manager-acmesolver'',
      res_CainjectorImageName = ''icp-cert-manager-cainjector'',
      res_WebhookImageName = ''icp-cert-manager-webhook'',
      res_ControllerImageVersion = ''1.0'',
      res_WebhookImageVersion = ''1.0'',
      res_ControllerImageEnvVar = ''CONTROLLER_IMAGE'',
      res_AcmeSolverImageEnvVar = ''ACMESOLVER_IMAGE'',
      res_CaInjectorImageEnvVar = ''CAINJECTOR_IMAGE'',
      res_WebhookImageEnvVar = ''WEBHOOK_IMAGE'',
      res_ResourceNS = ''--cluster-resource-namespace=ibm-common-services'',
      res_DefaultArgs = [''--v=2''],
      res_TrueVar = True,
      res_FalseVar = False,
      res_GetImageID = (\<lambda>registry name version postfix envVar.
                          registry @ ''/'' @ name @ '':'' @ version @ postfix)\<rparr>"

definition noResources :: ResourceRequirements where
  "noResources = \<lparr>Limits = None, Requests = None\<rparr>"

text \<open>An input that overrides nothing, and one with a registry that ends in two separators.\<close>

definition sampleConfig :: CertManagerConfig where
  "sampleConfig =
     \<lparr>Spec_ImageRegistry = [],
      Spec_ImagePostFix = [],
      Spec_ResourceNS = [],
      Spec_DisableHostNetwork = None,
      Spec_CertManagerController = noResources,
      Spec_CertManagerCAInjector = noResources,
      Spec_CertManagerWebhook = noResources\<rparr>"

definition registryConfig :: CertManagerConfig where
  "registryConfig = sampleConfig\<lparr>Spec_ImageRegistry := ''quay.io/opencloudio//''\<rparr>"

definition sampleSecurity :: SecurityContext where
  "sampleSecurity =
     \<lparr>RunAsNonRoot = Some True,
      RunAsUser = None,
      AllowPrivilegeEscalation = Some False,
      ReadOnlyRootFilesystem = Some True,
      Privileged = Some False,
      Caps = None\<rparr>"

text \<open>A container whose cpu limit is the given quantity.\<close>

definition sampleContainer :: "string \<Rightarrow> Quantity \<Rightarrow> Container" where
  "sampleContainer img cpu =
     \<lparr>ContainerName = ''cert-manager'',
      ContainerImage = img,
      ImagePullPolicy = ''IfNotPresent'',
      Args = None,
      LivenessProbe = None,
      ReadinessProbe = None,
      ContainerSecurity = Some sampleSecurity,
      Resources = \<lparr>Limits = Some [(''cpu'', cpu)], Requests = None\<rparr>,
      Env = [],
      VolumeMounts = []\<rparr>"

text \<open>The quantities written \<^verbatim>\<open>"1000m"\<close> and \<^verbatim>\<open>"1"\<close>.\<close>

definition milli1000 :: Quantity where
  "milli1000 = \<lparr>i_value = 1000, i_scale = - 3\<rparr>"

definition whole1 :: Quantity where
  "whole1 = \<lparr>i_value = 1, i_scale = 0\<rparr>"

text \<open>A deployment of the given name, namespace and containers.\<close>

definition sampleDeploy :: "string \<Rightarrow> string \<Rightarrow> Container list \<Rightarrow> Deployment" where
  "sampleDeploy name ns containers =
     \<lparr>Name = name,
      Namespace = ns,
      Labels = Some [(''app'', ''cert-manager'')],
      ResourceVersion = [],
      OwnerReferences = [],
      Replicas = Some 1,
      TemplateLabels = Some [(''app'', ''cert-manager'')],
      ImagePullSecrets = None,
      ServiceAccountName = ''cert-manager'',
      PodSecurity = None,
      Volumes = [],
      HostNetwork = False,
      Containers = containers\<rparr>"

text \<open>
  A cluster whose list calls answer with the given deployments (the first list for a
  label selector, the second for the empty selector) and whose delete call answers with
  the given result; a client whose writes succeed; a scheme that knows the owner.
\<close>

definition sampleKube :: "Deployment list \<Rightarrow> Deployment list \<Rightarrow> error option \<Rightarrow> Kube" where
  "sampleKube byLabels allItems deleted =
     \<lparr>ListDeployments = (\<lambda>selector. if selector = [] then Inr allItems else Inr byLabels),
      DeleteDeployment = (\<lambda>namespace name. deleted)\<rparr>"

definition sampleClient :: Client where
  "sampleClient = \<lparr>Create = (\<lambda>d. None), Update = (\<lambda>d. None)\<rparr>"

definition sampleScheme :: Scheme where
  "sampleScheme = (\<lambda>owner controlled. Inr ''CertManagerConfig/default'')"

text \<open>A scheme in which the owner's kind is not registered.\<close>

definition refusingScheme :: Scheme where
  "refusingScheme = (\<lambda>owner controlled. Inl (ErrorString ''no kind is registered for the type CertManagerConfig''))"

text \<open>The controller template, an installation of it, and a foreign installation.\<close>

definition controllerTemplate :: Deployment where
  "controllerTemplate = sampleDeploy ''cert-manager-controller'' [] [sampleContainer [] whole1]"

definition webhookTemplate :: Deployment where
  "webhookTemplate = sampleDeploy ''cert-manager-webhook'' [] [sampleContainer [] whole1]"

definition installed :: Deployment where
  "installed =
     sampleDeploy ''cert-manager-controller'' ''ibm-cert-manager''
       [(sampleContainer ''icr.io/cpopen/cpfs/icp-cert-manager-controller:1.0'' whole1)
          \<lparr>Args := Some [''--v=2'',
             ''--acme-http01-solver-image=icr.io/cpopen/cpfs/icp-cert-manager-acmesolver:1.0'',
             ''--cluster-resource-namespace=ibm-common-services'',
             ''--leader-election-namespace=ibm-cert-manager'']\<rparr>]"

definition foreign :: Deployment where
  "foreign =
     sampleDeploy ''cert-manager'' ''kube-system''
       [sampleContainer ''quay.io/jetstack/icp-cert-manager-controller:0.9'' whole1]"

section \<open>Properties\<close>

subsection \<open>Auxiliary facts\<close>

lemma strings_Contains_append: "strings_Contains (p @ sub @ q) sub"
proof (induction p)
  case Nil
  show ?case using prefixI [of "sub @ q" sub q] by (cases "sub @ q") auto
next
  case (Cons a p)
  then show ?case by simp
qed

lemma conflictMessage_names:
  "strings_Contains (conflictMessage name c) (Namespace c @ ''/'' @ Name c)"
proof -
  have "conflictMessage name c =
      (''The service '' @ name @ '' is already deployed as '') @ (Namespace c @ ''/'' @ Name c) @
      (''. Please remove it if you want this version of '' @ name @ '' to be deployed.'')"
    by (simp add: conflictMessage_def)
  then show ?thesis by (simp only: strings_Contains_append)
qed

lemma findExisting_foreign:
  assumes "\<exists>c \<in> set similarDeploys. \<not> (Name c = name \<and> Namespace c = ns)"
  shows "\<exists>c \<in> set similarDeploys. \<not> (Name c = name \<and> Namespace c = ns) \<and>
           findExisting name ns similarDeploys existing = Inl (ErrorString (conflictMessage name c))"
  using assms by (induction similarDeploys arbitrary: existing) auto

lemma setupDeploy_Namespace:
  "setupDeploy r inst deploy ns = Inr d \<Longrightarrow> Namespace d = ns"
  by (auto simp: setupDeploy_def Let_def split: list.splits if_splits option.splits)

lemma equalDeploys_OwnerReferences:
  "equalDeploys (d\<lparr>OwnerReferences := refs\<rparr>) c = equalDeploys d c"
  by (simp add: equalDeploys_def)

lemma addByImage_panics:
  "\<exists>d \<in> set items. Containers d = [] \<Longrightarrow> addByImage name m items = Inl IndexOutOfRange"
  by (induction items arbitrary: m) (auto split: list.splits)

lemma addByImage_returns:
  "\<forall>d \<in> set items. Containers d \<noteq> [] \<Longrightarrow> \<exists>m'. addByImage name m items = Inr m'"
  by (induction items arbitrary: m) (auto split: list.splits)

lemma deployFinder_panic:
  "deployFinder rng client labels name = Inl p \<longleftrightarrow>
     p = IndexOutOfRange \<and>
     (\<exists>items. ListDeployments client [] = Inr items \<and> (\<exists>d \<in> set items. Containers d = []))"
proof (cases "ListDeployments client []")
  case (Inl err)
  then show ?thesis by (simp add: deployFinder_def Let_def)
next
  case (Inr items)
  show ?thesis
  proof (cases "\<exists>d \<in> set items. Containers d = []")
    case True
    then show ?thesis using Inr addByImage_panics [OF True]
      by (auto simp: deployFinder_def Let_def)
  next
    case False
    then have "\<forall>d \<in> set items. Containers d \<noteq> []" by simp
    from addByImage_returns [OF this] obtain m' where
      "addByImage name (case ListDeployments client labels of
                          Inl err \<Rightarrow> [] | Inr items \<Rightarrow> addByLabels [] items) items = Inr m'"
      by blast
    then show ?thesis using Inr False
      by (simp add: deployFinder_def Let_def)
  qed
qed

lemma probesEqual_panic: "probesEqual f s = Inl p \<Longrightarrow> p = NilPointerDereference"
  by (auto simp: probesEqual_def split: option.splits if_splits)

lemma containersEqual_panic: "containersEqual f s = Inl p \<Longrightarrow> p = NilPointerDereference"
  unfolding containersEqual_def
  by (simp split: if_splits sum.splits bool.splits) (auto dest: probesEqual_panic)

lemma equalDeploys_cases:
  "equalDeploys first second = Inr False \<or>
   (length (Containers first) = length (Containers second) \<and>
    equalDeploys first second =
      (case (Containers first, Containers second) of
         (fContainer # _, sContainer # _) \<Rightarrow> containersEqual fContainer sContainer
       | _ \<Rightarrow> Inl IndexOutOfRange))"
  by (simp add: equalDeploys_def)

lemma equalDeploys_out_of_range:
  assumes "equalDeploys first second = Inl IndexOutOfRange"
  shows "Containers first = [] \<and> Containers second = []"
proof -
  from equalDeploys_cases [of first second] assms
  have len: "length (Containers first) = length (Containers second)"
    and eq: "(case (Containers first, Containers second) of
                (fContainer # _, sContainer # _) \<Rightarrow> containersEqual fContainer sContainer
              | _ \<Rightarrow> Inl IndexOutOfRange) = Inl IndexOutOfRange"
    by auto
  show ?thesis
  proof (cases "Containers first")
    case Nil
    with len show ?thesis by simp
  next
    case (Cons f fs)
    with len obtain s ss where "Containers second = s # ss"
      by (cases "Containers second") auto
    with Cons eq have "containersEqual f s = Inl IndexOutOfRange" by simp
    from containersEqual_panic [OF this] show ?thesis by simp
  qed
qed

subsection \<open>The sample objects, evaluated\<close>

lemmas sample_defs = sampleRes_def sampleConfig_def noResources_def sampleSecurity_def
  sampleContainer_def whole1_def milli1000_def sampleDeploy_def sampleKube_def sampleClient_def
  sampleScheme_def refusingScheme_def controllerTemplate_def webhookTemplate_def installed_def foreign_def
  registryConfig_def

lemmas equal_defs = equalDeploys_def containersEqual_def argsEqual_def probesEqual_def
  securityEqual_def fieldEqual_def resourcesEqual_def

lemma finder_sample:
  "deployFinder (\<lambda>xs. xs) (sampleKube [foreign] [foreign, installed] None)
     ''app=cert-manager'' ''icp-cert-manager-controller'' = Inr [foreign, installed]"
  by (simp add: deployFinder_def addDeploy_def mapKey_def sample_defs)

lemma finder_installed:
  "deployFinder (\<lambda>xs. xs) (sampleKube [installed] [installed] None)
     ''app=cert-manager'' ''icp-cert-manager-controller'' = Inr [installed]"
  by (simp add: deployFinder_def addDeploy_def mapKey_def sample_defs)

lemma setup_sample:
  "setupDeploy sampleRes sampleConfig controllerTemplate ''ibm-cert-manager'' = Inr installed"
  by (simp add: setupDeploy_def imageRegistry_def overrideResources_def Let_def sample_defs)

lemma equal_installed: "equalDeploys installed installed = Inr True"
  by (simp add: equal_defs sample_defs)

subsection \<open>Conflict with a foreign deployment\<close>

text \<open>
  Claim C1. When discovery returns a candidate list and the desired object is built, and
  some candidate's name or namespace differs from the identity \<open>(name, ns)\<close> of the pass,
  then \<^verbatim>\<open>deployLogic\<close> returns the error made at lines 64-67 for such a candidate, whose
  message contains that candidate's namespace and name as \<^verbatim>\<open>namespace/name\<close>, and it
  makes no create and no update call. This holds for every order in which the
  candidates are met.
\<close>

theorem deployLogic_conflict:
  assumes "deployFinder rng kubeclient labels imageName = Inr similarDeploys"
      and "setupDeploy r inst deployTemplate ns = Inr deployment"
      and "\<exists>c \<in> set similarDeploys. \<not> (Name c = name \<and> Namespace c = ns)"
  shows "\<exists>c \<in> set similarDeploys. \<not> (Name c = name \<and> Namespace c = ns) \<and>
           strings_Contains (conflictMessage name c) (Namespace c @ ''/'' @ Name c) \<and>
           deployLogic rng r inst client kubeclient scheme deployTemplate name imageName labels ns =
             (Inr (Some (ErrorString (conflictMessage name c))), [])"
proof -
  from findExisting_foreign [OF assms(3), of None]
  obtain c where c: "c \<in> set similarDeploys" "\<not> (Name c = name \<and> Namespace c = ns)"
    "findExisting name ns similarDeploys None = Inl (ErrorString (conflictMessage name c))"
    by blast
  have "deployLogic rng r inst client kubeclient scheme deployTemplate name imageName labels ns =
             (Inr (Some (ErrorString (conflictMessage name c))), [])"
    by (simp add: deployLogic_def assms(1,2) c(3))
  with c conflictMessage_names show ?thesis by blast
qed

theorem deployLogic_conflict_witness:
  "deployFinder (\<lambda>xs. xs) (sampleKube [foreign] [foreign, installed] None)
     ''app=cert-manager'' ''icp-cert-manager-controller'' = Inr [foreign, installed] \<and>
   setupDeploy sampleRes sampleConfig controllerTemplate ''ibm-cert-manager'' = Inr installed \<and>
   Namespace foreign \<noteq> ''ibm-cert-manager'' \<and>
   deployLogic (\<lambda>xs. xs) sampleRes sampleConfig sampleClient
     (sampleKube [foreign] [foreign, installed] None) sampleScheme controllerTemplate
     ''cert-manager-controller'' ''icp-cert-manager-controller'' ''app=cert-manager'' ''ibm-cert-manager'' =
     (Inr (Some (ErrorString
        ''The service cert-manager-controller is already deployed as kube-system/cert-manager. Please remove it if you want this version of cert-manager-controller to be deployed.'')), [])"
proof -
  have f: "Namespace foreign \<noteq> ''ibm-cert-manager''" by (simp add: sample_defs)
  have i: "Name installed = ''cert-manager-controller'' \<and> Namespace installed = ''ibm-cert-manager''"
    by (simp add: sample_defs)
  have ex: "\<exists>c \<in> set [foreign, installed].
              \<not> (Name c = ''cert-manager-controller'' \<and> Namespace c = ''ibm-cert-manager'')"
    using f by simp
  have m: "conflictMessage ''cert-manager-controller'' foreign =
     ''The service cert-manager-controller is already deployed as kube-system/cert-manager. Please remove it if you want this version of cert-manager-controller to be deployed.''"
    by (simp add: conflictMessage_def sample_defs)
  from deployLogic_conflict [OF finder_sample setup_sample ex, of sampleClient sampleScheme]
  show ?thesis using f i m finder_sample setup_sample by auto
qed

subsection \<open>A pass over an installation that is already as desired\<close>

text \<open>
  Claim C5, as the code has it. Let \<open>D\<close> be the desired object of a pass for \<open>D\<close>'s own
  name. If discovery returns exactly one candidate and no other, it has \<open>D\<close>'s name and
  namespace, and \<^verbatim>\<open>equalDeploys\<close> of \<open>D\<close> and the candidate returns true, then
  \<^verbatim>\<open>deployLogic\<close> makes no create and no update call, and it returns nil when the owner
  reference is set and the error of \<^verbatim>\<open>SetControllerReference\<close> when it is not.
\<close>

theorem deployLogic_idempotent:
  assumes "deployFinder rng kubeclient labels imageName = Inr [candidate]"
      and "setupDeploy r inst deployTemplate ns = Inr D"
      and "name = Name D"
      and "Name candidate = Name D" and "Namespace candidate = Namespace D"
      and "equalDeploys D candidate = Inr True"
  shows "deployLogic rng r inst client kubeclient scheme deployTemplate name imageName labels ns =
           (case SetControllerReference inst D scheme of
              Inl err \<Rightarrow> (Inr (Some err), [])
            | Inr owned \<Rightarrow> (Inr None, []))"
proof -
  have ns: "Namespace D = ns" using assms(2) by (rule setupDeploy_Namespace)
  have found: "findExisting name ns [candidate] None = Inr (Some candidate)"
    using assms(3,4,5) ns by simp
  show ?thesis
  proof (cases "SetControllerReference inst D scheme")
    case (Inl err)
    with found show ?thesis by (simp add: deployLogic_def assms(1,2))
  next
    case (Inr owned)
    then have "equalDeploys owned candidate = Inr True"
      using assms(6)
      by (auto simp: SetControllerReference_def equalDeploys_OwnerReferences split: sum.splits)
    with Inr found show ?thesis by (simp add: deployLogic_def assms(1,2))
  qed
qed

theorem deployLogic_idempotent_witness:
  "deployFinder (\<lambda>xs. xs) (sampleKube [installed] [installed] None)
     ''app=cert-manager'' ''icp-cert-manager-controller'' = Inr [installed] \<and>
   setupDeploy sampleRes sampleConfig controllerTemplate ''ibm-cert-manager'' = Inr installed \<and>
   ''cert-manager-controller'' = Name installed \<and>
   SetControllerReference sampleConfig installed sampleScheme =
     Inr (installed\<lparr>OwnerReferences := [''CertManagerConfig/default'']\<rparr>) \<and>
   equalDeploys installed installed = Inr True \<and>
   deployLogic (\<lambda>xs. xs) sampleRes sampleConfig sampleClient
     (sampleKube [installed] [installed] None) sampleScheme controllerTemplate
     ''cert-manager-controller'' ''icp-cert-manager-controller'' ''app=cert-manager'' ''ibm-cert-manager'' =
     (Inr None, [])"
proof -
  have n: "''cert-manager-controller'' = Name installed" by (simp add: sample_defs)
  have s: "SetControllerReference sampleConfig installed sampleScheme =
     Inr (installed\<lparr>OwnerReferences := [''CertManagerConfig/default'']\<rparr>)"
    by (simp add: SetControllerReference_def sample_defs)
  from deployLogic_idempotent [OF finder_installed setup_sample n refl refl equal_installed,
         of sampleClient sampleScheme]
  show ?thesis using finder_installed setup_sample n s equal_installed by simp
qed

text \<open>
  The claim as stated fails twice. The candidate of \<open>D\<close>'s identity is there and compares
  equal, but with a scheme that refuses the owner the pass returns that error (lines
  76-78 come before the comparison), and with a foreign candidate beside it the pass
  returns the conflict error. Neither pass makes a write call.
\<close>

theorem deployLogic_not_nil:
  "equalDeploys installed installed = Inr True \<and>
   deployLogic (\<lambda>xs. xs) sampleRes sampleConfig sampleClient
     (sampleKube [installed] [installed] None) refusingScheme controllerTemplate
     ''cert-manager-controller'' ''icp-cert-manager-controller'' ''app=cert-manager'' ''ibm-cert-manager'' =
     (Inr (Some (ErrorString ''no kind is registered for the type CertManagerConfig'')), []) \<and>
   filter (\<lambda>c. Name c = Name installed \<and> Namespace c = Namespace installed) [foreign, installed] =
     [installed] \<and>
   deployLogic (\<lambda>xs. xs) sampleRes sampleConfig sampleClient
     (sampleKube [foreign] [foreign, installed] None) sampleScheme controllerTemplate
     ''cert-manager-controller'' ''icp-cert-manager-controller'' ''app=cert-manager'' ''ibm-cert-manager'' =
     (Inr (Some (ErrorString
        ''The service cert-manager-controller is already deployed as kube-system/cert-manager. Please remove it if you want this version of cert-manager-controller to be deployed.'')), [])"
proof -
  have one: "findExisting ''cert-manager-controller'' ''ibm-cert-manager'' [installed] None =
      Inr (Some installed)"
    by (simp add: sample_defs)
  have refused: "SetControllerReference sampleConfig installed refusingScheme =
      Inl (ErrorString ''no kind is registered for the type CertManagerConfig'')"
    by (simp add: SetControllerReference_def refusingScheme_def)
  have a: "deployLogic (\<lambda>xs. xs) sampleRes sampleConfig sampleClient
     (sampleKube [installed] [installed] None) refusingScheme controllerTemplate
     ''cert-manager-controller'' ''icp-cert-manager-controller'' ''app=cert-manager'' ''ibm-cert-manager'' =
     (Inr (Some (ErrorString ''no kind is registered for the type CertManagerConfig'')), [])"
    using one refused by (simp add: deployLogic_def finder_installed setup_sample)
  have two: "findExisting ''cert-manager-controller'' ''ibm-cert-manager'' [foreign, installed] None =
      Inl (ErrorString
        ''The service cert-manager-controller is already deployed as kube-system/cert-manager. Please remove it if you want this version of cert-manager-controller to be deployed.'')"
    by (simp add: conflictMessage_def sample_defs)
  have b: "deployLogic (\<lambda>xs. xs) sampleRes sampleConfig sampleClient
     (sampleKube [foreign] [foreign, installed] None) sampleScheme controllerTemplate
     ''cert-manager-controller'' ''icp-cert-manager-controller'' ''app=cert-manager'' ''ibm-cert-manager'' =
     (Inr (Some (ErrorString
        ''The service cert-manager-controller is already deployed as kube-system/cert-manager. Please remove it if you want this version of cert-manager-controller to be deployed.'')), [])"
    using two by (simp add: deployLogic_def finder_sample setup_sample)
  have f: "filter (\<lambda>c. Name c = Name installed \<and> Namespace c = Namespace installed) [foreign, installed] =
     [installed]"
    by (simp add: sample_defs)
  from equal_installed a f b show ?thesis by (intro conjI)
qed

subsection \<open>Removing a deployment\<close>

text \<open>
  Claim C10. When the delete call fails with the not-found condition, \<^verbatim>\<open>removeDeploy\<close>
  returns nil; when it fails with any other error, \<^verbatim>\<open>removeDeploy\<close> returns that error.
\<close>

theorem removeDeploy_not_found:
  "(DeleteDeployment client namespace name = Some err \<and> IsNotFound err
      \<longrightarrow> removeDeploy client name namespace = None) \<and>
   (DeleteDeployment client namespace name = Some err \<and> \<not> IsNotFound err
      \<longrightarrow> removeDeploy client name namespace = Some err)"
  by (simp add: removeDeploy_def)

theorem removeDeploy_not_found_witness:
  "DeleteDeployment (sampleKube [] [] (Some (StatusNotFound ''gone''))) ''ibm-cert-manager'' ''cert-manager-webhook''
     = Some (StatusNotFound ''gone'') \<and>
   IsNotFound (StatusNotFound ''gone'') \<and>
   removeDeploy (sampleKube [] [] (Some (StatusNotFound ''gone''))) ''cert-manager-webhook'' ''ibm-cert-manager'' = None \<and>
   DeleteDeployment (sampleKube [] [] (Some (StatusOther ''forbidden''))) ''ibm-cert-manager'' ''cert-manager-webhook''
     = Some (StatusOther ''forbidden'') \<and>
   \<not> IsNotFound (StatusOther ''forbidden'') \<and>
   removeDeploy (sampleKube [] [] (Some (StatusOther ''forbidden''))) ''cert-manager-webhook'' ''ibm-cert-manager''
     = Some (StatusOther ''forbidden'')"
  using removeDeploy_not_found [of "sampleKube [] [] (Some (StatusNotFound ''gone''))"
          "''ibm-cert-manager''" "''cert-manager-webhook''" "StatusNotFound ''gone''"]
        removeDeploy_not_found [of "sampleKube [] [] (Some (StatusOther ''forbidden''))"
          "''ibm-cert-manager''" "''cert-manager-webhook''" "StatusOther ''forbidden''"]
  by (simp add: sampleKube_def)

subsection \<open>The number of containers\<close>

text \<open>
  Claim C4, as the code has it. \<^verbatim>\<open>equalDeploys\<close> returns false whenever the two
  deployments differ in their number of containers. It does not ask for exactly one:
  with equal numbers, one or more, the result is that of comparing the deployments cut
  down to their first containers.
\<close>

theorem equalDeploys_container_counts:
  "(length (Containers first) \<noteq> length (Containers second) \<longrightarrow> equalDeploys first second = Inr False) \<and>
   (Containers first = f # fs \<and> Containers second = s # ss \<and> length fs = length ss \<longrightarrow>
      equalDeploys first second =
        equalDeploys (first\<lparr>Containers := [f]\<rparr>) (second\<lparr>Containers := [s]\<rparr>))"
  by (simp add: equalDeploys_def)

theorem equalDeploys_container_counts_witness:
  "length (Containers (sampleDeploy ''a'' ''b'' [sampleContainer ''c'' whole1])) \<noteq>
   length (Containers (sampleDeploy ''a'' ''b'' [sampleContainer ''c'' whole1, sampleContainer ''c'' whole1])) \<and>
   equalDeploys (sampleDeploy ''a'' ''b'' [sampleContainer ''c'' whole1])
     (sampleDeploy ''a'' ''b'' [sampleContainer ''c'' whole1, sampleContainer ''c'' whole1]) = Inr False \<and>
   equalDeploys (sampleDeploy ''a'' ''b'' [sampleContainer ''c'' whole1, sampleContainer ''d'' whole1])
     (sampleDeploy ''a'' ''b'' [sampleContainer ''c'' whole1, sampleContainer ''e'' whole1]) =
   equalDeploys (sampleDeploy ''a'' ''b'' [sampleContainer ''c'' whole1])
     (sampleDeploy ''a'' ''b'' [sampleContainer ''c'' whole1])"
  using equalDeploys_container_counts [of "sampleDeploy ''a'' ''b'' [sampleContainer ''c'' whole1]"
           "sampleDeploy ''a'' ''b'' [sampleContainer ''c'' whole1, sampleContainer ''c'' whole1]"]
        equalDeploys_container_counts [of
           "sampleDeploy ''a'' ''b'' [sampleContainer ''c'' whole1, sampleContainer ''d'' whole1]"
           "sampleDeploy ''a'' ''b'' [sampleContainer ''c'' whole1, sampleContainer ''e'' whole1]"
           "sampleContainer ''c'' whole1" "[sampleContainer ''d'' whole1]"
           "sampleContainer ''c'' whole1" "[sampleContainer ''e'' whole1]"]
  by (simp add: sampleDeploy_def)

text \<open>
  The claim as stated fails: two deployments with two containers each, which differ in
  the second container only, compare equal.
\<close>

theorem equalDeploys_two_containers:
  "equalDeploys
     (sampleDeploy ''cert-manager-controller'' ''ibm-cert-manager''
        [sampleContainer ''controller:1.0'' whole1, sampleContainer ''sidecar:1.0'' whole1])
     (sampleDeploy ''cert-manager-controller'' ''ibm-cert-manager''
        [sampleContainer ''controller:1.0'' whole1, sampleContainer ''sidecar:2.0'' whole1])
   = Inr True"
  by (simp add: equal_defs sample_defs)

subsection \<open>The registry of the image references\<close>

lemma TrimRight_slash_eq:
  "strings_TrimRight s ''/'' = rev (dropWhile (\<lambda>c. c = CHR ''/'') (rev s))"
  by (simp add: strings_TrimRight_def)

lemma TrimRight_slash:
  "\<exists>k. s = strings_TrimRight s ''/'' @ replicate k CHR ''/''"
proof -
  let ?P = "\<lambda>c. c = CHR ''/''"
  have tw: "takeWhile ?P xs = replicate (length (takeWhile ?P xs)) CHR ''/''" for xs
    by (induction xs) auto
  have "s = rev (dropWhile ?P (rev s)) @ rev (takeWhile ?P (rev s))"
    by (metis rev_append rev_rev_ident takeWhile_dropWhile_id)
  also have "rev (takeWhile ?P (rev s)) = replicate (length (takeWhile ?P (rev s))) CHR ''/''"
    by (subst tw) simp
  finally show ?thesis unfolding TrimRight_slash_eq by blast
qed

lemma TrimRight_no_slash: "\<not> suffix ''/'' (strings_TrimRight s ''/'')"
proof
  let ?P = "\<lambda>c. c = CHR ''/''"
  assume "suffix ''/'' (strings_TrimRight s ''/'')"
  then obtain u where "rev (dropWhile ?P (rev s)) = u @ ''/''"
    by (auto simp: suffix_def TrimRight_slash_eq)
  then have "rev (rev (dropWhile ?P (rev s))) = rev (u @ ''/'')" by (rule arg_cong)
  then have d: "dropWhile ?P (rev s) = CHR ''/'' # rev u" by simp
  then have "dropWhile ?P (rev s) \<noteq> []" and "hd (dropWhile ?P (rev s)) = CHR ''/''" by simp_all
  with hd_dropWhile [of ?P "rev s"] show False by simp
qed

text \<open>
  Claim C7, as the code has it. For each of the three workloads the image of container 0
  is composed by \<^verbatim>\<open>GetImageID\<close> from a registry, the workload's image name and version,
  the postfix and the environment variable. With an empty override the registry is the
  default constant as it is. With a non-empty override it is the override without all
  of its trailing separators: the override is the registry followed by some number of
  \<^verbatim>\<open>/\<close>, and the registry does not end in \<^verbatim>\<open>/\<close>.
\<close>

theorem setupDeploy_image_registry:
  assumes "setupDeploy r inst deploy ns = Inr d"
      and "Name deploy = res_CertManagerControllerName r \<or> Name deploy = res_CertManagerCainjectorName r \<or>
           Name deploy = res_CertManagerWebhookName r"
  shows "\<exists>registry c cs.
           Containers d = c # cs \<and>
           ContainerImage c =
             (if Name deploy = res_CertManagerControllerName r then
                res_GetImageID r registry (res_ControllerImageName r) (res_ControllerImageVersion r)
                  (Spec_ImagePostFix inst) (res_ControllerImageEnvVar r)
              else if Name deploy = res_CertManagerCainjectorName r then
                res_GetImageID r registry (res_CainjectorImageName r) (res_ControllerImageVersion r)
                  (Spec_ImagePostFix inst) (res_CaInjectorImageEnvVar r)
              else
                res_GetImageID r registry (res_WebhookImageName r) (res_WebhookImageVersion r)
                  (Spec_ImagePostFix inst) (res_WebhookImageEnvVar r)) \<and>
           (if Spec_ImageRegistry inst = [] then registry = res_ImageRegistry r
            else (\<exists>k. Spec_ImageRegistry inst = registry @ replicate k CHR ''/'') \<and>
                 \<not> suffix ''/'' registry)"
proof -
  have reg: "if Spec_ImageRegistry inst = [] then imageRegistry r inst = res_ImageRegistry r
            else (\<exists>k. Spec_ImageRegistry inst = imageRegistry r inst @ replicate k CHR ''/'') \<and>
                 \<not> suffix ''/'' (imageRegistry r inst)"
    using TrimRight_slash [of "Spec_ImageRegistry inst"] TrimRight_no_slash [of "Spec_ImageRegistry inst"]
    by (simp add: imageRegistry_def)
  obtain c0 cs where cs: "Containers deploy = c0 # cs"
    using assms(1) by (cases "Containers deploy") (simp_all add: setupDeploy_def)
  have "\<exists>c. Containers d = c # cs \<and>
           ContainerImage c =
             (if Name deploy = res_CertManagerControllerName r then
                res_GetImageID r (imageRegistry r inst) (res_ControllerImageName r) (res_ControllerImageVersion r)
                  (Spec_ImagePostFix inst) (res_ControllerImageEnvVar r)
              else if Name deploy = res_CertManagerCainjectorName r then
                res_GetImageID r (imageRegistry r inst) (res_CainjectorImageName r) (res_ControllerImageVersion r)
                  (Spec_ImagePostFix inst) (res_CaInjectorImageEnvVar r)
              else
                res_GetImageID r (imageRegistry r inst) (res_WebhookImageName r) (res_WebhookImageVersion r)
                  (Spec_ImagePostFix inst) (res_WebhookImageEnvVar r))"
    using assms cs
    by (auto simp: setupDeploy_def Let_def overrideResources_def split: if_splits option.splits)
  with reg show ?thesis by blast
qed

theorem setupDeploy_image_registry_witness:
  "Name controllerTemplate = res_CertManagerControllerName sampleRes \<and>
   Spec_ImageRegistry registryConfig \<noteq> [] \<and>
   (\<exists>d. setupDeploy sampleRes registryConfig controllerTemplate ''ibm-cert-manager'' = Inr d \<and>
     (\<exists>registry c cs.
        Containers d = c # cs \<and>
        ContainerImage c =
          res_GetImageID sampleRes registry (res_ControllerImageName sampleRes)
            (res_ControllerImageVersion sampleRes) (Spec_ImagePostFix registryConfig)
            (res_ControllerImageEnvVar sampleRes) \<and>
        (\<exists>k. Spec_ImageRegistry registryConfig = registry @ replicate k CHR ''/'') \<and>
        \<not> suffix ''/'' registry))"
proof -
  have n: "Name controllerTemplate = res_CertManagerControllerName sampleRes"
    by (simp add: sample_defs)
  have o: "Spec_ImageRegistry registryConfig \<noteq> []"
    by (simp add: registryConfig_def)
  obtain d where d: "setupDeploy sampleRes registryConfig controllerTemplate ''ibm-cert-manager'' = Inr d"
    by (simp add: setupDeploy_def Let_def sample_defs)
  from setupDeploy_image_registry [OF d disjI1, OF n] n o d
  show ?thesis by auto
qed

text \<open>
  The claim as stated fails: an override that ends in two separators loses both, where
  trimming exactly one would leave \<^verbatim>\<open>quay.io/opencloudio/\<close>.
\<close>

theorem setupDeploy_registry_two_separators:
  "Spec_ImageRegistry registryConfig = ''quay.io/opencloudio//'' \<and>
   imageRegistry sampleRes registryConfig = ''quay.io/opencloudio'' \<and>
   map_sum id (map ContainerImage \<circ> Containers)
     (setupDeploy sampleRes registryConfig controllerTemplate ''ibm-cert-manager'') =
     Inr [''quay.io/opencloudio/icp-cert-manager-controller:1.0'']"
  by (simp add: setupDeploy_def imageRegistry_def strings_TrimRight_def overrideResources_def Let_def
        registryConfig_def sample_defs)

subsection \<open>The host network of the webhook\<close>

text \<open>
  Claim C3, as the code has it. For the webhook template (with a container that has a
  security context) the built object's host-network flag is the negation of the input's
  disable flag when that is set, and the constant \<^verbatim>\<open>res.FalseVar\<close> when it is unset.
\<close>

theorem setupDeploy_webhook_hostNetwork:
  assumes "Name deploy = res_CertManagerWebhookName r"
      and "Name deploy \<noteq> res_CertManagerControllerName r"
      and "Name deploy \<noteq> res_CertManagerCainjectorName r"
      and "Containers deploy = c0 # cs" and "ContainerSecurity c0 = Some sc"
  shows "\<exists>d. setupDeploy r inst deploy ns = Inr d \<and>
           HostNetwork d = (case Spec_DisableHostNetwork inst of
                              None \<Rightarrow> res_FalseVar r
                            | Some disable \<Rightarrow> \<not> disable)"
  using assms by (simp add: setupDeploy_def Let_def)

theorem setupDeploy_webhook_hostNetwork_witness:
  "Name webhookTemplate = res_CertManagerWebhookName sampleRes \<and>
   Name webhookTemplate \<noteq> res_CertManagerControllerName sampleRes \<and>
   Name webhookTemplate \<noteq> res_CertManagerCainjectorName sampleRes \<and>
   Containers webhookTemplate = [sampleContainer [] whole1] \<and>
   ContainerSecurity (sampleContainer [] whole1) = Some sampleSecurity \<and>
   (\<exists>d. setupDeploy sampleRes (sampleConfig\<lparr>Spec_DisableHostNetwork := Some False\<rparr>)
           webhookTemplate ''ibm-cert-manager'' = Inr d \<and> HostNetwork d = True) \<and>
   (\<exists>d. setupDeploy sampleRes sampleConfig webhookTemplate ''ibm-cert-manager'' = Inr d \<and>
         HostNetwork d = res_FalseVar sampleRes)"
proof -
  have h: "Name webhookTemplate = res_CertManagerWebhookName sampleRes"
    "Name webhookTemplate \<noteq> res_CertManagerControllerName sampleRes"
    "Name webhookTemplate \<noteq> res_CertManagerCainjectorName sampleRes"
    "Containers webhookTemplate = [sampleContainer [] whole1]"
    "ContainerSecurity (sampleContainer [] whole1) = Some sampleSecurity"
    by (simp_all add: webhookTemplate_def sampleRes_def sampleDeploy_def sampleContainer_def)
  from setupDeploy_webhook_hostNetwork [OF h, of "sampleConfig\<lparr>Spec_DisableHostNetwork := Some False\<rparr>" "''ibm-cert-manager''"]
       setupDeploy_webhook_hostNetwork [OF h, of sampleConfig "''ibm-cert-manager''"]
  show ?thesis using h by (simp add: sampleConfig_def)
qed

text \<open>
  The claim as stated fails where \<^verbatim>\<open>FalseVar\<close> is false: with the disable flag unset the
  built webhook has host networking off, not on.
\<close>

theorem setupDeploy_webhook_default:
  "Spec_DisableHostNetwork sampleConfig = None \<and>
   map_sum id HostNetwork (setupDeploy sampleRes sampleConfig webhookTemplate ''ibm-cert-manager'') = Inr False"
  by (simp add: setupDeploy_def Let_def webhookTemplate_def sample_defs)

subsection \<open>The arguments of the controller\<close>

text \<open>
  Claim C2, as the code has it. For the controller template the arguments of container 0
  are the default arguments followed by exactly three entries in this order: the ACME
  solver image flag; a namespace entry, which is the cluster-resource-namespace flag of
  the input's override when that is not empty and the constant \<^verbatim>\<open>res.ResourceNS\<close> when it
  is empty; and the leader-election-namespace flag of the target namespace.
\<close>

theorem setupDeploy_controller_args:
  assumes "Name deploy = res_CertManagerControllerName r" and "Containers deploy = c0 # cs"
  shows "\<exists>d c1. setupDeploy r inst deploy ns = Inr d \<and> Containers d = c1 # cs \<and>
     Args c1 = Some (res_DefaultArgs r @
       [''--acme-http01-solver-image='' @
          res_GetImageID r (imageRegistry r inst) (res_AcmesolverImageName r)
             (res_ControllerImageVersion r) (Spec_ImagePostFix inst) (res_AcmeSolverImageEnvVar r),
        (if Spec_ResourceNS inst \<noteq> [] then ''--cluster-resource-namespace='' @ Spec_ResourceNS inst
         else res_ResourceNS r),
        ''--leader-election-namespace='' @ ns])"
  using assms by (simp add: setupDeploy_def Let_def overrideResources_def)

theorem setupDeploy_controller_args_witness:
  "Name controllerTemplate = res_CertManagerControllerName sampleRes \<and>
   Containers controllerTemplate = [sampleContainer [] whole1] \<and>
   (\<exists>d c1. setupDeploy sampleRes (sampleConfig\<lparr>Spec_ResourceNS := ''cert-issuers''\<rparr>)
              controllerTemplate ''ibm-cert-manager'' = Inr d \<and>
      Containers d = [c1] \<and>
      Args c1 = Some [''--v=2'',
        ''--acme-http01-solver-image=icr.io/cpopen/cpfs/icp-cert-manager-acmesolver:1.0'',
        ''--cluster-resource-namespace=cert-issuers'',
        ''--leader-election-namespace=ibm-cert-manager''])"
proof -
  have h: "Name controllerTemplate = res_CertManagerControllerName sampleRes"
    "Containers controllerTemplate = [sampleContainer [] whole1]"
    by (simp_all add: sample_defs)
  from setupDeploy_controller_args [OF h, of "sampleConfig\<lparr>Spec_ResourceNS := ''cert-issuers''\<rparr>" "''ibm-cert-manager''"]
  show ?thesis using h by (simp add: imageRegistry_def sampleRes_def sampleConfig_def)
qed

text \<open>
  The claim as stated fails: with the override unset the arguments still have an entry
  between the ACME solver flag and the leader-election flag.
\<close>

theorem setupDeploy_controller_default_namespace:
  "Spec_ResourceNS sampleConfig = [] \<and>
   map_sum id (map Args \<circ> Containers)
     (setupDeploy sampleRes sampleConfig controllerTemplate ''ibm-cert-manager'') =
     Inr [Some [''--v=2'',
            ''--acme-http01-solver-image=icr.io/cpopen/cpfs/icp-cert-manager-acmesolver:1.0'',
            ''--cluster-resource-namespace=ibm-common-services'',
            ''--leader-election-namespace=ibm-cert-manager'']]"
  by (simp add: setupDeploy_def imageRegistry_def overrideResources_def Let_def sample_defs)

subsection \<open>Indexing container 0\<close>

text \<open>
  Claim C9. \<^verbatim>\<open>deployFinder\<close> panics with an index out of range exactly when the list of
  all deployments is returned and holds a deployment with no container; so it does not
  when every listed deployment has a container. \<^verbatim>\<open>equalDeploys\<close> panics with an index
  out of range only when both deployments have no container, and it does so for two
  equal deployments with no container.
\<close>

theorem containers_index_out_of_range:
  "(deployFinder rng client labels name = Inl IndexOutOfRange \<longleftrightarrow>
      (\<exists>items. ListDeployments client [] = Inr items \<and> (\<exists>d \<in> set items. Containers d = []))) \<and>
   (equalDeploys first second = Inl IndexOutOfRange \<longrightarrow> Containers first = [] \<and> Containers second = []) \<and>
   equalDeploys (sampleDeploy n ns []) (sampleDeploy n ns []) = Inl IndexOutOfRange"
  using deployFinder_panic [of rng client labels name IndexOutOfRange]
        equalDeploys_out_of_range [of first second]
  by (simp add: equalDeploys_def sampleDeploy_def)

theorem containers_index_out_of_range_witness:
  "ListDeployments (sampleKube [] [installed, sampleDeploy ''empty'' ''default'' []] None) [] =
     Inr [installed, sampleDeploy ''empty'' ''default'' []] \<and>
   Containers (sampleDeploy ''empty'' ''default'' []) = [] \<and>
   deployFinder (\<lambda>xs. xs) (sampleKube [] [installed, sampleDeploy ''empty'' ''default'' []] None)
     ''app=cert-manager'' ''icp-cert-manager-controller'' = Inl IndexOutOfRange \<and>
   ListDeployments (sampleKube [installed] [installed] None) [] = Inr [installed] \<and>
   Containers installed \<noteq> [] \<and>
   deployFinder (\<lambda>xs. xs) (sampleKube [installed] [installed] None)
     ''app=cert-manager'' ''icp-cert-manager-controller'' \<noteq> Inl IndexOutOfRange \<and>
   equalDeploys installed foreign \<noteq> Inl IndexOutOfRange \<and>
   equalDeploys (sampleDeploy ''empty'' ''default'' []) (sampleDeploy ''empty'' ''default'' []) = Inl IndexOutOfRange"
proof -
  have l: "ListDeployments (sampleKube [] [installed, sampleDeploy ''empty'' ''default'' []] None) [] =
     Inr [installed, sampleDeploy ''empty'' ''default'' []]"
    "ListDeployments (sampleKube [installed] [installed] None) [] = Inr [installed]"
    by (simp_all add: sampleKube_def)
  have c: "Containers (sampleDeploy ''empty'' ''default'' []) = []" "Containers installed \<noteq> []"
    "Containers foreign \<noteq> []"
    by (simp_all add: sampleDeploy_def installed_def foreign_def)
  from containers_index_out_of_range [of "\<lambda>xs. xs"
         "sampleKube [] [installed, sampleDeploy ''empty'' ''default'' []] None"
         "''app=cert-manager''" "''icp-cert-manager-controller''" installed foreign "''empty''" "''default''"]
       containers_index_out_of_range [of "\<lambda>xs. xs" "sampleKube [installed] [installed] None"
         "''app=cert-manager''" "''icp-cert-manager-controller''" installed foreign "''empty''" "''default''"]
  show ?thesis using l c by auto
qed

subsection \<open>Discovery without duplicates\<close>

lemma keys_addDeploy: "fst ` set (addDeploy m d) = insert (mapKey d) (fst ` set m)"
  by (auto simp: addDeploy_def map_of_eq_None_iff)

lemma keyed_addDeploy: "keyed m \<Longrightarrow> keyed (addDeploy m d)"
  by (auto simp: keyed_def addDeploy_def map_of_eq_None_iff)

lemma keys_addByLabels:
  "fst ` set (addByLabels m items) = fst ` set m \<union> mapKey ` set items"
  by (induction items arbitrary: m) (auto simp: keys_addDeploy)

lemma keyed_addByLabels: "keyed m \<Longrightarrow> keyed (addByLabels m items)"
  by (induction items arbitrary: m) (auto simp: keyed_addDeploy)

lemma keys_addByImage:
  "addByImage name m items = Inr m' \<Longrightarrow>
   fst ` set m' = fst ` set m \<union>
     mapKey ` {d \<in> set items. \<exists>c cs. Containers d = c # cs \<and> strings_Contains (ContainerImage c) name}"
proof (induction items arbitrary: m)
  case Nil
  then show ?case by simp
next
  case (Cons d items)
  from Cons.prems obtain c cs where c: "Containers d = c # cs"
    by (cases "Containers d") auto
  show ?case
  proof (cases "strings_Contains (ContainerImage c) name")
    case True
    with c Cons.prems have "addByImage name (addDeploy m d) items = Inr m'" by simp
    from Cons.IH [OF this] True c show ?thesis by (auto simp: keys_addDeploy)
  next
    case False
    with c Cons.prems have "addByImage name m items = Inr m'" by simp
    from Cons.IH [OF this] False c show ?thesis by auto
  qed
qed

lemma keyed_addByImage:
  "keyed m \<Longrightarrow> addByImage name m items = Inr m' \<Longrightarrow> keyed m'"
proof (induction items arbitrary: m)
  case Nil
  then show ?case by simp
next
  case (Cons d items)
  from Cons.prems(2) obtain c cs where c: "Containers d = c # cs"
    by (cases "Containers d") auto
  show ?case
  proof (cases "strings_Contains (ContainerImage c) name")
    case True
    with c Cons.prems(2) have "addByImage name (addDeploy m d) items = Inr m'" by simp
    from Cons.IH [OF keyed_addDeploy [OF Cons.prems(1)] this] show ?thesis .
  next
    case False
    with c Cons.prems(2) have "addByImage name m items = Inr m'" by simp
    from Cons.IH [OF Cons.prems(1) this] show ?thesis .
  qed
qed

lemma keyed_values:
  assumes "keyed m"
  shows "map mapKey (map snd m) = map fst m"
  using assms by (induction m) (auto simp: keyed_def)

lemma filter_key_once:
  assumes "distinct (map f xs)" "k \<in> f ` set xs"
  shows "length (filter (\<lambda>x. f x = k) xs) = 1"
  using assms
proof (induction xs)
  case Nil
  then show ?case by simp
next
  case (Cons x xs)
  show ?case
  proof (cases "f x = k")
    case True
    with Cons.prems(1) have "\<forall>y \<in> set xs. f y \<noteq> k" by (force simp: image_iff)
    then have "filter (\<lambda>x. f x = k) xs = []" by (simp add: filter_empty_conv)
    with True show ?thesis by simp
  next
    case False
    with Cons show ?thesis by auto
  qed
qed

text \<open>The key tells two identities apart when neither name holds the separator.\<close>

lemma mapKey_inj:
  assumes "mapKey a = mapKey b" "CHR ''/'' \<notin> set (Name a)" "CHR ''/'' \<notin> set (Name b)"
  shows "Name a = Name b \<and> Namespace a = Namespace b"
proof -
  let ?P = "\<lambda>c. c \<noteq> CHR ''/''"
  from assms(1) have eq: "Name a @ CHR ''/'' # Namespace a = Name b @ CHR ''/'' # Namespace b"
    by (simp add: mapKey_def)
  have "takeWhile ?P (Name a @ CHR ''/'' # Namespace a) = Name a"
    using assms(2) by (subst takeWhile_append2) auto
  moreover have "takeWhile ?P (Name b @ CHR ''/'' # Namespace b) = Name b"
    using assms(3) by (subst takeWhile_append2) auto
  ultimately have "Name a = Name b" using eq by simp
  with eq show ?thesis by simp
qed

lemma deployFinder_keyed:
  assumes "deployFinder rng client labels name = Inr result"
  shows "\<exists>m. result = rng (map snd m) \<and> keyed m \<and>
     fst ` set m =
       (case ListDeployments client labels of Inl e \<Rightarrow> {} | Inr items \<Rightarrow> mapKey ` set items) \<union>
       (case ListDeployments client [] of Inl e \<Rightarrow> {}
        | Inr items \<Rightarrow> mapKey ` {d \<in> set items. \<exists>c cs. Containers d = c # cs \<and>
                                   strings_Contains (ContainerImage c) name})"
proof -
  define byLabels where "byLabels = (case ListDeployments client labels of
                        Inl err \<Rightarrow> [] | Inr items \<Rightarrow> addByLabels [] items)"
  have k0: "keyed []" by (simp add: keyed_def)
  have bl: "keyed byLabels"
    by (cases "ListDeployments client labels") (simp_all add: byLabels_def k0 keyed_addByLabels)
  have bk: "fst ` set byLabels =
      (case ListDeployments client labels of Inl e \<Rightarrow> {} | Inr items \<Rightarrow> mapKey ` set items)"
    by (simp add: byLabels_def keys_addByLabels split: sum.splits)
  show ?thesis
  proof (cases "ListDeployments client []")
    case (Inl e)
    with assms have "result = rng (map snd byLabels)"
      by (simp add: deployFinder_def byLabels_def)
    with bl bk Inl show ?thesis by auto
  next
    case (Inr items)
    with assms obtain m' where m': "addByImage name byLabels items = Inr m'" "result = rng (map snd m')"
      by (auto simp: deployFinder_def byLabels_def Let_def split: sum.splits)
    from keyed_addByImage [OF bl m'(1)] keys_addByImage [OF m'(1)] bk m'(2) Inr
    show ?thesis by auto
  qed
qed

lemma finder_both:
  "deployFinder rev (sampleKube [installed] [installed, foreign] None)
     ''app=cert-manager'' ''icp-cert-manager-controller'' = Inr [foreign, installed]"
  by (simp add: deployFinder_def addDeploy_def mapKey_def sample_defs)

text \<open>
  Claim C8. Let the runtime range over the map in any order (\<open>rng\<close> permutes its
  argument), let \<^verbatim>\<open>deployFinder\<close> return, and let no name hold the separator \<^verbatim>\<open>/\<close>, as
  Kubernetes names cannot. A deployment found by its labels or by its image, and so one
  found by both, has its name and namespace on exactly one element of the returned
  slice. The key joins name and namespace: two deployments with the same key and the
  same name have the same namespace, so one name in two namespaces gives two keys.
\<close>

theorem deployFinder_dedup:
  assumes "\<And>xs. mset (rng xs) = mset xs"
      and "deployFinder rng client labels name = Inr result"
      and "(ListDeployments client labels = Inr byLabels \<and> d \<in> set byLabels) \<or>
           (ListDeployments client [] = Inr allItems \<and> d \<in> set allItems \<and>
            (\<exists>c cs. Containers d = c # cs \<and> strings_Contains (ContainerImage c) name))"
      and "CHR ''/'' \<notin> set (Name d)" and "\<forall>x \<in> set result. CHR ''/'' \<notin> set (Name x)"
  shows "length (filter (\<lambda>x. Name x = Name d \<and> Namespace x = Namespace d) result) = 1 \<and>
         (\<forall>a b. mapKey a = mapKey b \<and> Name a = Name b \<longrightarrow> Namespace a = Namespace b)"
proof -
  from deployFinder_keyed [OF assms(2)] obtain m where
    m: "result = rng (map snd m)" "keyed m" and
    keys: "fst ` set m =
       (case ListDeployments client labels of Inl e \<Rightarrow> {} | Inr items \<Rightarrow> mapKey ` set items) \<union>
       (case ListDeployments client [] of Inl e \<Rightarrow> {}
        | Inr items \<Rightarrow> mapKey ` {d \<in> set items. \<exists>c cs. Containers d = c # cs \<and>
                                   strings_Contains (ContainerImage c) name})"
    by blast
  have perm: "mset result = mset (map snd m)" using m(1) assms(1) by simp
  have "mset (map mapKey result) = mset (map fst m)"
    using perm keyed_values [OF m(2)] by (metis mset_map)
  moreover have "distinct (map fst m)" using m(2) by (simp add: keyed_def)
  ultimately have dist: "distinct (map mapKey result)"
    by (metis mset_eq_imp_distinct_iff)
  have "set result = set (map snd m)" using perm by (rule mset_eq_setD)
  then have "mapKey ` set result = fst ` set m"
    using keyed_values [OF m(2)] by (metis list.set_map)
  moreover have "mapKey d \<in> fst ` set m"
    using assms(3) keys by auto
  ultimately have "mapKey d \<in> mapKey ` set result" by simp
  from filter_key_once [OF dist this]
  have once: "length (filter (\<lambda>x. mapKey x = mapKey d) result) = 1" .
  have "filter (\<lambda>x. mapKey x = mapKey d) result =
        filter (\<lambda>x. Name x = Name d \<and> Namespace x = Namespace d) result"
  proof (rule filter_cong [OF refl])
    fix x assume "x \<in> set result"
    with assms(5) have "CHR ''/'' \<notin> set (Name x)" by blast
    with assms(4) mapKey_inj [of x d]
    show "(mapKey x = mapKey d) = (Name x = Name d \<and> Namespace x = Namespace d)"
      by (auto simp: mapKey_def)
  qed
  with once have "length (filter (\<lambda>x. Name x = Name d \<and> Namespace x = Namespace d) result) = 1"
    by simp
  moreover have "\<forall>a b. mapKey a = mapKey b \<and> Name a = Name b \<longrightarrow> Namespace a = Namespace b"
    by (auto simp: mapKey_def)
  ultimately show ?thesis by blast
qed

theorem deployFinder_dedup_witness:
  "deployFinder rev (sampleKube [installed] [installed, foreign] None)
     ''app=cert-manager'' ''icp-cert-manager-controller'' = Inr [foreign, installed] \<and>
   ListDeployments (sampleKube [installed] [installed, foreign] None) ''app=cert-manager'' = Inr [installed] \<and>
   ListDeployments (sampleKube [installed] [installed, foreign] None) [] = Inr [installed, foreign] \<and>
   strings_Contains (ContainerImage (hd (Containers installed))) ''icp-cert-manager-controller'' \<and>
   CHR ''/'' \<notin> set (Name installed) \<and> CHR ''/'' \<notin> set (Name foreign) \<and>
   length (filter (\<lambda>x. Name x = Name installed \<and> Namespace x = Namespace installed)
             [foreign, installed]) = 1"
proof -
  have l: "ListDeployments (sampleKube [installed] [installed, foreign] None) ''app=cert-manager'' = Inr [installed]"
    "ListDeployments (sampleKube [installed] [installed, foreign] None) [] = Inr [installed, foreign]"
    by (simp_all add: sampleKube_def)
  have i: "strings_Contains (ContainerImage (hd (Containers installed))) ''icp-cert-manager-controller''"
    by (simp add: sample_defs)
  have n: "CHR ''/'' \<notin> set (Name installed)" "CHR ''/'' \<notin> set (Name foreign)"
    by (simp_all add: sample_defs)
  have found: "(ListDeployments (sampleKube [installed] [installed, foreign] None) ''app=cert-manager''
                  = Inr [installed] \<and> installed \<in> set [installed]) \<or>
               (ListDeployments (sampleKube [installed] [installed, foreign] None) []
                  = Inr [installed, foreign] \<and> installed \<in> set [installed, foreign] \<and>
                (\<exists>c cs. Containers installed = c # cs \<and>
                         strings_Contains (ContainerImage c) ''icp-cert-manager-controller''))"
    using l by simp
  have r: "\<forall>x \<in> set [foreign, installed]. CHR ''/'' \<notin> set (Name x)"
    using n by simp
  from deployFinder_dedup [of rev, OF mset_rev finder_both found n(1) r]
  have "length (filter (\<lambda>x. Name x = Name installed \<and> Namespace x = Namespace installed)
             [foreign, installed]) = 1"
    by (rule conjunct1)
  with finder_both l i n show ?thesis by (intro conjI)
qed

subsection \<open>Comparing resource quantities\<close>

text \<open>
  The string of a decimal with a positive scale has that many digits after its point,
  so quantities of equal worth held at different scales print differently.
\<close>

lemma digitChar_not_point: "n < 10 \<Longrightarrow> digitChar n \<noteq> CHR ''.''"
proof -
  assume "n < 10"
  then have "n \<in> {0, 1, 2, 3, 4, 5, 6, 7, 8, 9}" by auto
  then show ?thesis by (auto simp: digitChar_def)
qed

lemma natString_no_point: "CHR ''.'' \<notin> set (natString n)"
proof (induction n rule: natString.induct)
  case (1 n)
  show ?case
  proof (cases "n < 10")
    case True
    with digitChar_not_point [of n] show ?thesis by (subst natString.simps) auto
  next
    case False
    with 1 digitChar_not_point [of "n mod 10"] show ?thesis by (subst natString.simps) auto
  qed
qed

lemma natString_nonempty: "natString n \<noteq> []"
  by (subst natString.simps) simp

lemma intString_no_point: "CHR ''.'' \<notin> set (intString i)"
  by (simp add: intString_def natString_no_point)

lemma intString_length: "(if i < 0 then 1 else 0) < length (intString i)"
  using natString_nonempty by (auto simp: intString_def)

lemma Dec_String_no_point: "scale \<le> 0 \<Longrightarrow> CHR ''.'' \<notin> set (Dec_String unscaled scale)"
  by (auto simp: Dec_String_def Let_def intString_no_point)

lemma Dec_String_point:
  assumes "0 < scale"
  shows "\<exists>a b. Dec_String unscaled scale = a @ CHR ''.'' # b \<and> length b = nat scale \<and> CHR ''.'' \<notin> set b"
proof -
  let ?s = "intString unscaled"
  let ?negbit = "if unscaled < 0 then 1 else 0 :: nat"
  have len: "?negbit < length ?s" using intString_length [of unscaled] by simp
  show ?thesis
  proof (cases "int (length ?s) - int ?negbit \<le> scale")
    case True
    let ?b = "replicate (nat (scale - int (length ?s) + int ?negbit)) CHR ''0'' @ drop ?negbit ?s"
    have "Dec_String unscaled scale = ((if ?negbit = 1 then ''-'' else []) @ ''0'') @ CHR ''.'' # ?b"
      using assms True by (simp add: Dec_String_def Let_def)
    moreover have "length ?b = nat scale" using True len assms by auto
    moreover have "CHR ''.'' \<notin> set ?b"
      using intString_no_point [of unscaled] by (auto dest: in_set_dropD)
    ultimately show ?thesis by blast
  next
    case False
    let ?b = "drop (length ?s - nat scale) ?s"
    have "Dec_String unscaled scale = take (length ?s - nat scale) ?s @ CHR ''.'' # ?b"
      using assms False by (simp add: Dec_String_def Let_def)
    moreover have "length ?b = nat scale" using False assms by auto
    moreover have "CHR ''.'' \<notin> set ?b"
      using intString_no_point [of unscaled] by (auto dest: in_set_dropD)
    ultimately show ?thesis by blast
  qed
qed

lemma after_last:
  assumes "c \<notin> set b" "c \<notin> set b'" "a @ c # b = a' @ c # b'"
  shows "b = b'"
proof -
  let ?P = "\<lambda>x. x \<noteq> c"
  from assms(3) have "rev (a @ c # b) = rev (a' @ c # b')" by (rule arg_cong)
  then have "rev b @ c # rev a = rev b' @ c # rev a'" by simp
  then have "takeWhile ?P (rev b @ c # rev a) = takeWhile ?P (rev b' @ c # rev a')"
    by (rule arg_cong)
  moreover have "takeWhile ?P (rev b @ c # rev a) = rev b"
    using assms(1) by (subst takeWhile_append2) auto
  moreover have "takeWhile ?P (rev b' @ c # rev a') = rev b'"
    using assms(2) by (subst takeWhile_append2) auto
  ultimately have "rev b = rev b'" by (simp only:)
  then show ?thesis by simp
qed

lemma Dec_String_scale:
  assumes "0 < scale" "scale \<noteq> scale'"
  shows "Dec_String unscaled scale \<noteq> Dec_String unscaled' scale'"
proof
  assume eq: "Dec_String unscaled scale = Dec_String unscaled' scale'"
  from Dec_String_point [OF assms(1), of unscaled] obtain a b where
    ab: "Dec_String unscaled scale = a @ CHR ''.'' # b" "length b = nat scale" "CHR ''.'' \<notin> set b"
    by blast
  show False
  proof (cases "0 < scale'")
    case False
    then have "CHR ''.'' \<notin> set (Dec_String unscaled' scale')"
      by (simp add: Dec_String_no_point)
    moreover have "CHR ''.'' \<in> set (Dec_String unscaled scale)"
      by (simp add: ab(1))
    ultimately show False using eq by simp
  next
    case True
    from Dec_String_point [OF True, of unscaled'] obtain a' b' where
      ab': "Dec_String unscaled' scale' = a' @ CHR ''.'' # b'" "length b' = nat scale'" "CHR ''.'' \<notin> set b'"
      by blast
    from eq ab(1) ab'(1) have "a @ CHR ''.'' # b = a' @ CHR ''.'' # b'" by simp
    from after_last [OF ab(3) ab'(3) this] have "length b = length b'" by simp
    with ab(2) ab'(2) assms True show False by simp
  qed
qed

lemma Sprint_AsDec_scale:
  "i_scale q < 0 \<Longrightarrow> i_scale q \<noteq> i_scale q' \<Longrightarrow> Sprint_AsDec q \<noteq> Sprint_AsDec q'"
  by (simp add: Sprint_AsDec_def Dec_String_scale)

lemmas render_defs = Sprint_AsDec_def Dec_String_def intString_def natString.simps digitChar_def
  Cpu_def Memory_def StorageEphemeral_def quantityOf_def

text \<open>
  Claim C6. The resource facet is to compare the six quantities (cpu and memory limits,
  cpu, memory and ephemeral-storage requests, the ephemeral-storage limit) by a
  normalized decimal string, so that \<^verbatim>\<open>"1000m"\<close> and \<^verbatim>\<open>"1"\<close> compare equal. The code
  compares \<^verbatim>\<open>fmt.Sprint(q.AsDec())\<close>, and that string is not normalized: \<^verbatim>\<open>"1000m"\<close>
  prints as \<^verbatim>\<open>1.000\<close> and \<^verbatim>\<open>"1"\<close> as \<^verbatim>\<open>1\<close>. Two deployments that differ only in writing
  the cpu limit one way or the other compare unequal, where two with the same writing
  compare equal.
\<close>

theorem equalDeploys_milli_and_whole:
  "Sprint_AsDec milli1000 = ''1.000'' \<and> Sprint_AsDec whole1 = ''1'' \<and>
   equalDeploys (sampleDeploy ''cert-manager-controller'' ''ibm-cert-manager'' [sampleContainer ''controller:1.0'' milli1000])
     (sampleDeploy ''cert-manager-controller'' ''ibm-cert-manager'' [sampleContainer ''controller:1.0'' whole1]) = Inr False \<and>
   equalDeploys (sampleDeploy ''cert-manager-controller'' ''ibm-cert-manager'' [sampleContainer ''controller:1.0'' whole1])
     (sampleDeploy ''cert-manager-controller'' ''ibm-cert-manager'' [sampleContainer ''controller:1.0'' whole1]) = Inr True"
proof -
  have r: "Sprint_AsDec milli1000 = ''1.000''" "Sprint_AsDec whole1 = ''1''"
    by (simp_all add: render_defs milli1000_def whole1_def)
  have c: "Cpu (Some [(''cpu'', q)]) = q" "Memory (Some [(''cpu'', q)]) = \<lparr>i_value = 0, i_scale = 0\<rparr>"
    "StorageEphemeral (Some [(''cpu'', q)]) = \<lparr>i_value = 0, i_scale = 0\<rparr>" for q
    by (simp_all add: Cpu_def Memory_def StorageEphemeral_def quantityOf_def)
  have "equalDeploys (sampleDeploy ''cert-manager-controller'' ''ibm-cert-manager'' [sampleContainer ''controller:1.0'' milli1000])
     (sampleDeploy ''cert-manager-controller'' ''ibm-cert-manager'' [sampleContainer ''controller:1.0'' whole1]) = Inr False"
    by (simp add: equal_defs sampleDeploy_def sampleContainer_def sampleSecurity_def c r)
  moreover have "equalDeploys (sampleDeploy ''cert-manager-controller'' ''ibm-cert-manager'' [sampleContainer ''controller:1.0'' whole1])
     (sampleDeploy ''cert-manager-controller'' ''ibm-cert-manager'' [sampleContainer ''controller:1.0'' whole1]) = Inr True"
    by (simp add: equal_defs sampleDeploy_def sampleContainer_def sampleSecurity_def)
  ultimately show ?thesis using r by simp
qed

end
